theory Spec2Isabelle
  imports Complex_Main
begin

section \<open>Data model of the swap quote sessions (src/state/swap.tsx)\<close>

text \<open>
  JavaScript numbers are read as exact rationals: the pool fees that are added up are
  small integers (basis points), and the slippage tolerance is a decimal percentage.
\<close>

type_synonym number = rat

text \<open>
  Modelled from the spec: the types \<open>TokenMetadata\<close> (services/ft-contract) and \<open>Pool\<close>
  (services/pool), whose declarations are not among the sources. A token has an
  identifier, a symbol and a decimal precision; a pool has an identifier and a fee rate in
  basis points. The hooks read only \<open>id\<close> of a token and \<open>fee\<close> of a pool.
\<close>

record TokenMetadata =
  token_id :: string
  symbol :: string
  decimals :: nat

record Pool =
  pool_id :: nat
  fee :: number

text \<open>
  Modelled from the spec: the enum \<open>PoolMode\<close> of services/swap, whose declaration is not
  among the sources. The tag of a route leg is \<open>PARALLEL\<close>, \<open>STABLE\<close> or \<open>SMART\<close>.
\<close>

datatype PoolMode = PARALLEL | SMART | STABLE

text \<open>
  A route leg, with the fields \<open>setAverageFee\<close> and \<open>getEstimate\<close> read. The types of
  the route graphs are left open.
\<close>

record ('r, 'n) EstimateSwapView =
  status :: PoolMode
  pool :: Pool
  allRoutes :: 'r
  allNodeRoutes :: 'n
  totalInputAmount :: string

text \<open>
  What a promise can reject with, or a callback throw: the empty string of \<open>throw ''\<close>,
  the TypeError of reading a property of \<open>undefined\<close>, or the reason an external service
  rejected with.
\<close>

datatype err = ThrownEmpty | TypeError | Rejection string

text \<open>
  The \<open>useState\<close> cells the two hooks share (lines 71-74 and 241-244); \<open>None\<close> stands for
  \<open>undefined\<close> and \<open>null\<close>. \<open>sessionPool\<close> is the cell \<open>pool\<close>.
\<close>

record session =
  sessionPool :: "Pool option"
  canSwap :: "bool option"
  tokenOutAmount :: string
  swapError :: "err option"

record ('r, 'n) swap_session = session +
  swapsToDo :: "('r, 'n) EstimateSwapView list option"
  avgFee :: number

record stable_session = session +
  noFeeAmount :: string

text \<open>
  Modelled from the spec: the type \<open>StablePool\<close> (services/pool), whose declaration is
  not among the sources: curve parameters and the member token ids. The hook only passes
  it on to the estimator.
\<close>

record StablePool =
  stable_id :: nat
  token_account_ids :: "string list"
  total_fee :: nat
  amp :: nat

text \<open>
  The hook arguments (interface \<open>SwapOptions\<close>, lines 46-58). An optional boolean that is
  left out is falsy, so it is \<open>False\<close> here. The setters \<open>setLoadingTrigger\<close> and
  \<open>setCanSwap\<close> are modelled by their effect on the world below; \<open>setLoadingData\<close>,
  \<open>loadingData\<close> and \<open>intl\<close> touch no cell of the session and are left out.
\<close>

record SwapOptions =
  tokenIn :: "TokenMetadata option"
  tokenInAmount :: string
  tokenOut :: "TokenMetadata option"
  slippageTolerance :: number
  loadingTrigger :: bool
  loadingPause :: bool
  stablePool :: "StablePool option"

text \<open>
  One estimation cycle runs on a world: the cells of the hook, the parent's
  \<open>loadingTrigger\<close> flag (written through \<open>setLoadingTrigger\<close>), and the number of
  times the estimator was invoked. A cycle returns the world together with the error
  that escaped it, if any (an exception out of \<open>getEstimate\<close> or a rejection that no
  handler of the promise chain caught).
\<close>

record 's world =
  state :: 's
  trigger :: bool
  calls :: nat

type_synonym 's settled = "err option \<times> 's world"

section \<open>The regular expression \<open>ONLY_ZEROS\<close> (line 44)\<close>

text \<open>\<open>/^0*\.?0*$/\<close>: zeros, at most one dot, zeros.\<close>

definition ONLY_ZEROS :: "string \<Rightarrow> bool" where
  "ONLY_ZEROS s =
     (let r = dropWhile (\<lambda>c. c = CHR ''0'') s;
          r' = (case r of [] \<Rightarrow> [] | c # t \<Rightarrow> if c = CHR ''.'' then t else r)
      in dropWhile (\<lambda>c. c = CHR ''0'') r' = [])"

text \<open>\<open>tokenInAmount && !ONLY_ZEROS.test(tokenInAmount)\<close> (lines 155 and 274).\<close>

definition nonZeroAmount :: "string \<Rightarrow> bool" where
  "nonZeroAmount a = (a \<noteq> [] \<and> \<not> ONLY_ZEROS a)"

section \<open>The minimum accepted output (lines 84-86 and 251-253)\<close>

text \<open>
  \<open>tokenOutAmount ? percentLess(slippageTolerance, tokenOutAmount) : null\<close>, the same
  expression in both hooks. \<open>percentLess\<close> (utils/numbers) is a parameter; \<open>None\<close> is
  \<open>null\<close>. A string is truthy exactly when it is not empty.
\<close>

definition minAmountOut ::
  "(number \<Rightarrow> string \<Rightarrow> 'm) \<Rightarrow> number \<Rightarrow> string \<Rightarrow> 'm option" where
  "minAmountOut percentLess slippage out =
     (if out \<noteq> [] then Some (percentLess slippage out) else None)"

section \<open>The average fee (\<open>setAverageFee\<close>, lines 91-109)\<close>

text \<open>
  \<open>estimates[0]\<close> of an empty array is \<open>undefined\<close>, and reading its \<open>status\<close> throws a
  TypeError before any cell is written. \<open>getAverageFeeForRoutes\<close>
  (services/smartRouteLogic) is a parameter.
\<close>

definition setAverageFee ::
  "('r \<Rightarrow> 'n \<Rightarrow> string \<Rightarrow> number) \<Rightarrow> ('r, 'n) EstimateSwapView list \<Rightarrow>
     ('r, 'n) swap_session \<Rightarrow> err + ('r, 'n) swap_session" where
  "setAverageFee getAverageFeeForRoutes estimates s =
     (case estimates of
        [] \<Rightarrow> Inl TypeError
      | estimate # _ \<Rightarrow>
          Inr (s\<lparr>avgFee :=
            (if status estimate = SMART \<or> status estimate = STABLE
             then foldl (\<lambda>pre cur. pre + fee (pool cur)) 0 estimates
             else getAverageFeeForRoutes (allRoutes estimate) (allNodeRoutes estimate)
                    (totalInputAmount estimate))\<rparr>))"

section \<open>Promise plumbing\<close>

text \<open>
  A settled promise is the world after the callbacks so far, with \<open>Some e\<close> when it is
  rejected with \<open>e\<close>. \<open>.catch(h)\<close> runs \<open>h\<close> on a rejection and passes a fulfilment on;
  \<open>.finally(f)\<close> runs \<open>f\<close> either way and keeps the settlement.
\<close>

definition catch_p :: "(err \<Rightarrow> 's world \<Rightarrow> 's settled) \<Rightarrow> 's settled \<Rightarrow> 's settled" where
  "catch_p h p = (case fst p of None \<Rightarrow> p | Some e \<Rightarrow> h e (snd p))"

definition finally_p :: "('s world \<Rightarrow> 's world) \<Rightarrow> 's settled \<Rightarrow> 's settled" where
  "finally_p f p = (fst p, f (snd p))"

definition setLoadingTrigger :: "bool \<Rightarrow> 's world \<Rightarrow> 's world" where
  "setLoadingTrigger b w = w\<lparr>trigger := b\<rparr>"

section \<open>\<open>useSwap.getEstimate\<close> (lines 134-185)\<close>

text \<open>
  The \<open>.then\<close> callback (lines 152-169). \<open>expectedOutput estimates id\<close> stands for
  \<open>getExpectedOutputFromActions(estimates, id).toString()\<close>. \<open>loadingTrigger\<close> and
  \<open>tokenInAmount\<close> are the values the closure captured when the cycle started.
\<close>

definition useSwap_then ::
  "('r \<Rightarrow> 'n \<Rightarrow> string \<Rightarrow> number) \<Rightarrow> (('r, 'n) EstimateSwapView list \<Rightarrow> string \<Rightarrow> string) \<Rightarrow>
     SwapOptions \<Rightarrow> TokenMetadata \<Rightarrow> ('r, 'n) EstimateSwapView list option \<Rightarrow>
     ('r, 'n) swap_session world \<Rightarrow> ('r, 'n) swap_session settled" where
  "useSwap_then getAverageFeeForRoutes expectedOutput P tout r w =
     (case r of
        None \<Rightarrow> (Some ThrownEmpty, w)
      | Some estimates \<Rightarrow>
          (let p1 =
             (if nonZeroAmount (tokenInAmount P) then
                (let s1 = (state w)\<lparr>canSwap := Some True\<rparr> in
                 case setAverageFee getAverageFeeForRoutes estimates s1 of
                   Inl e \<Rightarrow> (Some e, w\<lparr>state := s1\<rparr>)
                 | Inr s2 \<Rightarrow>
                     (None, w\<lparr>state :=
                        (if \<not> loadingTrigger P
                         then s2\<lparr>tokenOutAmount := expectedOutput estimates (token_id tout),
                                 swapsToDo := Some estimates\<rparr>
                         else s2)\<rparr>))
              else (None, w))
           in case fst p1 of
                Some e \<Rightarrow> p1
              | None \<Rightarrow>
                  (case estimates of
                     [] \<Rightarrow> (Some TypeError, snd p1)
                   | e # _ \<Rightarrow>
                       (None, (snd p1)\<lparr>state := (state (snd p1))\<lparr>sessionPool := Some (pool e)\<rparr>\<rparr>))))"

text \<open>The \<open>.catch\<close> handler (lines 170-174); it throws nothing.\<close>

definition useSwap_catch ::
  "err \<Rightarrow> ('r, 'n) swap_session world \<Rightarrow> ('r, 'n) swap_session settled" where
  "useSwap_catch e w =
     (None, w\<lparr>state := (state w)\<lparr>canSwap := Some False, tokenOutAmount := [],
                                   swapError := Some e\<rparr>\<rparr>)"

text \<open>The \<open>else if\<close> branch (lines 176-184), the same in both hooks.\<close>

definition elseBranch :: "SwapOptions \<Rightarrow> ('a session_scheme) world \<Rightarrow> ('a session_scheme) world" where
  "elseBranch P w =
     (if (case tokenIn P of None \<Rightarrow> False | Some a \<Rightarrow>
            (case tokenOut P of None \<Rightarrow> False | Some b \<Rightarrow>
               tokenInAmount P = [] \<and> ONLY_ZEROS (tokenInAmount P) \<and> token_id a \<noteq> token_id b))
      then w\<lparr>state := (state w)\<lparr>tokenOutAmount := ''0''\<rparr>\<rparr>
      else w)"

text \<open>
  The whole cycle. \<open>estimateSwap tin tout amountIn lt\<close> is the settlement of the route
  search's promise: \<open>Inl\<close> a rejection, \<open>Inr None\<close> a falsy result, \<open>Inr (Some es)\<close> an
  array of route legs (an empty array is truthy).
\<close>

definition useSwap_getEstimate ::
  "('r \<Rightarrow> 'n \<Rightarrow> string \<Rightarrow> number) \<Rightarrow> (('r, 'n) EstimateSwapView list \<Rightarrow> string \<Rightarrow> string) \<Rightarrow>
     (TokenMetadata \<Rightarrow> TokenMetadata \<Rightarrow> string \<Rightarrow> bool \<Rightarrow> err + ('r, 'n) EstimateSwapView list option) \<Rightarrow>
     SwapOptions \<Rightarrow> ('r, 'n) swap_session \<Rightarrow> ('r, 'n) swap_session settled" where
  "useSwap_getEstimate getAverageFeeForRoutes expectedOutput estimateSwap P s =
     (let w0 = \<lparr>state = s\<lparr>canSwap := Some False\<rparr>, trigger = loadingTrigger P, calls = 0\<rparr> in
      case tokenIn P of
        None \<Rightarrow> (None, elseBranch P w0)
      | Some tin \<Rightarrow>
          (case tokenOut P of
             None \<Rightarrow> (None, elseBranch P w0)
           | Some tout \<Rightarrow>
               if token_id tin \<noteq> token_id tout then
                 (let w1 = w0\<lparr>state := (state w0)\<lparr>swapError := None\<rparr>\<rparr> in
                  if tokenInAmount P = [] \<or> ONLY_ZEROS (tokenInAmount P) then
                    (None, w1\<lparr>state := (state w1)\<lparr>tokenOutAmount := ''0''\<rparr>\<rparr>)
                  else
                    (let w2 = w1\<lparr>calls := Suc (calls w1)\<rparr> in
                     finally_p (setLoadingTrigger False)
                       (catch_p useSwap_catch
                          (case estimateSwap tin tout (tokenInAmount P)
                                  (loadingTrigger P \<and> \<not> loadingPause P) of
                             Inl e \<Rightarrow> (Some e, w2)
                           | Inr r \<Rightarrow>
                               useSwap_then getAverageFeeForRoutes expectedOutput P tout r w2))))
               else (None, elseBranch P w0)))"

section \<open>\<open>useStableSwap.getEstimate\<close> (lines 257-298)\<close>

text \<open>
  The stable estimator resolves with an object \<open>{ estimate, pool, dy }\<close>; a field that
  is \<open>undefined\<close> is \<open>None\<close>. It is handed the setters \<open>setCanSwap\<close> and
  \<open>setLoadingTrigger\<close> (lines 268 and 270), so its reply carries the values it
  passed to them, in order, before its promise settled.
\<close>

record StableEstimate =
  estimate :: "string option"
  estimatePool :: "Pool option"
  dy :: string

record stable_reply =
  canSwapWrites :: "bool list"
  triggerWrites :: "bool list"
  settlement :: "err + StableEstimate option"

definition estimatorWrites :: "stable_reply \<Rightarrow> stable_session world \<Rightarrow> stable_session world" where
  "estimatorWrites r w =
     foldl (\<lambda>w b. setLoadingTrigger b w)
       (foldl (\<lambda>w b. w\<lparr>state := (state w)\<lparr>canSwap := Some b\<rparr>\<rparr>) w (canSwapWrites r))
       (triggerWrites r)"

text \<open>
  The \<open>.then\<close> callback (lines 272-282). Destructuring a result that is \<open>undefined\<close>
  throws a TypeError; an \<open>estimate\<close> that is \<open>undefined\<close> or the empty string, or a
  missing \<open>pool\<close>, throws the empty string.
\<close>

definition useStableSwap_then ::
  "SwapOptions \<Rightarrow> StableEstimate option \<Rightarrow> stable_session world \<Rightarrow> stable_session settled" where
  "useStableSwap_then P r w =
     (case r of
        None \<Rightarrow> (Some TypeError, w)
      | Some v \<Rightarrow>
          (case estimate v of
             None \<Rightarrow> (Some ThrownEmpty, w)
           | Some est \<Rightarrow>
               (case estimatePool v of
                  None \<Rightarrow> (Some ThrownEmpty, w)
                | Some p \<Rightarrow>
                    if est = [] then (Some ThrownEmpty, w)
                    else if nonZeroAmount (tokenInAmount P) then
                      (let s1 = (state w)\<lparr>canSwap := Some True\<rparr>;
                           s2 = (if \<not> loadingTrigger P
                                 then s1\<lparr>noFeeAmount := dy v, tokenOutAmount := est\<rparr>
                                 else s1)
                       in (None, w\<lparr>state := s2\<lparr>sessionPool := Some p\<rparr>\<rparr>))
                    else (None, w))))"

text \<open>The \<open>.catch\<close> handler (lines 283-288).\<close>

definition useStableSwap_catch :: "err \<Rightarrow> stable_session world \<Rightarrow> stable_session settled" where
  "useStableSwap_catch e w =
     (None, w\<lparr>state := (state w)\<lparr>canSwap := Some False, tokenOutAmount := [],
                                   noFeeAmount := [], swapError := Some e\<rparr>\<rparr>)"

text \<open>The whole cycle; there is no early return on a zero amount and no \<open>.finally\<close>.\<close>

definition useStableSwap_getEstimate ::
  "(TokenMetadata \<Rightarrow> TokenMetadata \<Rightarrow> string \<Rightarrow> bool \<Rightarrow> StablePool option \<Rightarrow> stable_reply) \<Rightarrow>
     SwapOptions \<Rightarrow> stable_session \<Rightarrow> stable_session settled" where
  "useStableSwap_getEstimate estimateStableSwap P s =
     (let w0 = \<lparr>state = s\<lparr>canSwap := Some False\<rparr>, trigger = loadingTrigger P, calls = 0\<rparr> in
      case tokenIn P of
        None \<Rightarrow> (None, elseBranch P w0)
      | Some tin \<Rightarrow>
          (case tokenOut P of
             None \<Rightarrow> (None, elseBranch P w0)
           | Some tout \<Rightarrow>
               if token_id tin \<noteq> token_id tout then
                 (let w1 = w0\<lparr>state := (state w0)\<lparr>swapError := None\<rparr>\<rparr>;
                      w2 = w1\<lparr>calls := Suc (calls w1)\<rparr>;
                      reply = estimateStableSwap tin tout (tokenInAmount P) (loadingTrigger P)
                                (stablePool P);
                      w3 = estimatorWrites reply w2
                  in catch_p useStableSwap_catch
                       (case settlement reply of
                          Inl e \<Rightarrow> (Some e, w3)
                        | Inr r \<Rightarrow> useStableSwap_then P r w3))
               else (None, elseBranch P w0)))"

section \<open>The transaction hash effect (lines 111-132 and 300-321)\<close>

text \<open>
  Modelled from the spec: the transaction \<open>checkTransaction\<close> (services/swap, not among
  the sources) resolves with: an ordered list of actions, each with an optional
  function-call method name. An entry of \<open>transaction.actions\<close> is an object with one
  key; only the key \<open>FunctionCall\<close> carries a \<open>method_name\<close>.
\<close>

datatype Action = FunctionCall string | OtherAction

record Transaction =
  actions :: "Action list"

text \<open>\<open>transaction?.actions[i]?.['FunctionCall']?.method_name\<close>; \<open>None\<close> is \<open>undefined\<close>.\<close>

definition method_name :: "Transaction option \<Rightarrow> nat \<Rightarrow> string option" where
  "method_name transaction i =
     (case transaction of
        None \<Rightarrow> None
      | Some t \<Rightarrow>
          if i < length (actions t)
          then (case actions t ! i of FunctionCall m \<Rightarrow> Some m | OtherAction \<Rightarrow> None)
          else None)"

definition isSwap :: "Transaction option \<Rightarrow> bool" where
  "isSwap transaction =
     (method_name transaction 1 = Some ''ft_transfer_call'' \<or>
      method_name transaction 0 = Some ''ft_transfer_call'' \<or>
      method_name transaction 0 = Some ''swap'' \<or>
      method_name transaction 0 = Some ''near_withdraw'')"

text \<open>
  Modelled from the spec: \<open>getURLInfo\<close> (components/layout/transactionTipPopUp, not among
  the sources), which reads the current transaction hash, path and error code from the
  navigation context; the hash and the error code are query parameters, \<open>None\<close> when absent.
  \<open>history.replace(pathname)\<close> of react-router replaces the entry by a bare path, which
  has no query parameters. \<open>toasts\<close> lists the hashes \<open>swapToast\<close> was called with.
\<close>

record URLInfo =
  txHash :: "string option"
  pathname :: string
  errorType :: "string option"

record nav =
  location :: URLInfo
  toasts :: "string list"

definition truthy :: "string option \<Rightarrow> bool" where
  "truthy v = (case v of None \<Rightarrow> False | Some s \<Rightarrow> s \<noteq> [])"

definition history_replace :: "string \<Rightarrow> nav \<Rightarrow> nav" where
  "history_replace p n = n\<lparr>location := \<lparr>txHash = None, pathname = p, errorType = None\<rparr>\<rparr>"

definition swapToast :: "string \<Rightarrow> nav \<Rightarrow> nav" where
  "swapToast h n = n\<lparr>toasts := toasts n @ [h]\<rparr>"

text \<open>
  The effect. \<open>checkTransaction h\<close> is the settlement of the lookup: \<open>Inl\<close> a rejection,
  which no handler catches, \<open>Inr\<close> the \<open>transaction\<close> field of its result.
\<close>

definition txHashEffect :: "(string \<Rightarrow> err + Transaction option) \<Rightarrow> nav \<Rightarrow> err option \<times> nav" where
  "txHashEffect checkTransaction n =
     (let info = location n in
      case txHash info of
        None \<Rightarrow> (None, n)
      | Some h \<Rightarrow>
          if h = [] then (None, n)
          else
            (case checkTransaction h of
               Inl e \<Rightarrow> (Some e, n)
             | Inr transaction \<Rightarrow>
                 (let n1 = (if isSwap transaction
                            then (if \<not> truthy (errorType info) then swapToast h n else n)
                            else n)
                  in (None, history_replace (pathname info) n1))))"

section \<open>The slippage reduction\<close>

text \<open>
  Modelled from the spec: the number an amount string denotes, as \<open>percentLess\<close> of
  utils/numbers (not among the sources) reads its second argument. An amount is a decimal
  numeral as \<open>toString()\<close> prints a number: an optional minus sign, digits with an
  optional fraction, and an optional exponent (\<open>9.066\<close>, \<open>1e-7\<close>, \<open>1.5e+21\<close>).
  \<open>None\<close> is the failure on any other string.
\<close>

definition digitValue :: "char \<Rightarrow> nat option" where
  "digitValue c =
     (let n = (of_char c :: nat) in if 48 \<le> n \<and> n \<le> 57 then Some (n - 48) else None)"

fun digitsValue :: "string \<Rightarrow> nat \<Rightarrow> nat option" where
  "digitsValue [] acc = Some acc"
| "digitsValue (c # cs) acc =
     (case digitValue c of None \<Rightarrow> None | Some d \<Rightarrow> digitsValue cs (10 * acc + d))"

definition decimalValue :: "string \<Rightarrow> number option" where
  "decimalValue s =
     (let ip = takeWhile (\<lambda>c. c \<noteq> CHR ''.'') s;
          fp = (case dropWhile (\<lambda>c. c \<noteq> CHR ''.'') s of [] \<Rightarrow> [] | _ # t \<Rightarrow> t)
      in if ip = [] \<and> fp = [] then None
         else (case digitsValue ip 0 of
                 None \<Rightarrow> None
               | Some a \<Rightarrow>
                   (case digitsValue fp 0 of
                      None \<Rightarrow> None
                    | Some b \<Rightarrow> Some (of_nat a + of_nat b / 10 ^ length fp))))"

definition exponentValue :: "string \<Rightarrow> int option" where
  "exponentValue s =
     (case s of
        [] \<Rightarrow> None
      | c # t \<Rightarrow>
          if c = CHR ''-'' then
            (if t = [] then None
             else (case digitsValue t 0 of None \<Rightarrow> None | Some n \<Rightarrow> Some (- int n)))
          else if c = CHR ''+'' then
            (if t = [] then None
             else (case digitsValue t 0 of None \<Rightarrow> None | Some n \<Rightarrow> Some (int n)))
          else (case digitsValue s 0 of None \<Rightarrow> None | Some n \<Rightarrow> Some (int n)))"

definition scale10 :: "number \<Rightarrow> int \<Rightarrow> number" where
  "scale10 x e = (if 0 \<le> e then x * 10 ^ nat e else x / 10 ^ nat (- e))"

definition unsignedValue :: "string \<Rightarrow> number option" where
  "unsignedValue s =
     (let m = takeWhile (\<lambda>c. c \<noteq> CHR ''e'' \<and> c \<noteq> CHR ''E'') s
      in case dropWhile (\<lambda>c. c \<noteq> CHR ''e'' \<and> c \<noteq> CHR ''E'') s of
           [] \<Rightarrow> decimalValue m
         | _ # ex \<Rightarrow>
             (case decimalValue m of
                None \<Rightarrow> None
              | Some x \<Rightarrow>
                  (case exponentValue ex of None \<Rightarrow> None | Some e \<Rightarrow> Some (scale10 x e))))"

definition amountValue :: "string \<Rightarrow> number option" where
  "amountValue s =
     (case s of
        [] \<Rightarrow> None
      | c # t \<Rightarrow>
          if c = CHR ''-''
          then (case unsignedValue t of None \<Rightarrow> None | Some x \<Rightarrow> Some (- x))
          else unsignedValue s)"

text \<open>
  Modelled from the spec: \<open>percentLess\<close> of utils/numbers, which is not among the
  sources. The specification calls the slippage tolerance the maximum fractional
  reduction from the estimated output the user accepts, and \<open>minAmountOut\<close> the
  minimum acceptable output after slippage: the amount less that percentage of itself.
  The arithmetic is exact, as the specification's amounts and fractions are.
\<close>

definition percentLess :: "number \<Rightarrow> string \<Rightarrow> number option" where
  "percentLess percent num =
     (case amountValue num of None \<Rightarrow> None | Some x \<Rightarrow> Some (x - (percent / 100) * x))"

section \<open>The stable estimator and the loading trigger\<close>


section \<open>Initial cells and example inputs\<close>

text \<open>The initial values of the \<open>useState\<close> cells (lines 71-77 and 241-245).\<close>

definition useSwap_initial :: "('r, 'n) swap_session" where
  "useSwap_initial =
     \<lparr>sessionPool = None, canSwap = None, tokenOutAmount = [], swapError = None,
      swapsToDo = None, avgFee = 0\<rparr>"

definition useStableSwap_initial :: stable_session where
  "useStableSwap_initial =
     \<lparr>sessionPool = None, canSwap = None, tokenOutAmount = [], swapError = None,
      noFeeAmount = []\<rparr>"

text \<open>Two tokens, a pool, a route leg and hook arguments, for the concrete runs below.\<close>

definition wnear :: TokenMetadata where
  "wnear = \<lparr>token_id = ''wrap.near'', symbol = ''wNEAR'', decimals = 24\<rparr>"

definition usdt :: TokenMetadata where
  "usdt = \<lparr>token_id = ''usdt.near'', symbol = ''USDT'', decimals = 6\<rparr>"

definition pool79 :: Pool where
  "pool79 = \<lparr>pool_id = 79, fee = 30\<rparr>"

definition leg79 :: "PoolMode \<Rightarrow> (unit, unit) EstimateSwapView" where
  "leg79 m = \<lparr>status = m, pool = pool79, allRoutes = (), allNodeRoutes = (),
              totalInputAmount = ''10''\<rparr>"

definition userEdit :: "string \<Rightarrow> SwapOptions" where
  "userEdit amount =
     \<lparr>tokenIn = Some wnear, tokenInAmount = amount, tokenOut = Some usdt,
      slippageTolerance = 1 / 2, loadingTrigger = False, loadingPause = False,
      stablePool = None\<rparr>"

definition timerRefresh :: "string \<Rightarrow> SwapOptions" where
  "timerRefresh amount = (userEdit amount)\<lparr>loadingTrigger := True\<rparr>"

text \<open>A reply of the stable estimator that calls neither setter.\<close>

definition quietReply :: "err + StableEstimate option \<Rightarrow> stable_reply" where
  "quietReply r = \<lparr>canSwapWrites = [], triggerWrites = [], settlement = r\<rparr>"

section \<open>Auxiliary facts\<close>

lemmas cycle_defs =
  useSwap_getEstimate_def useStableSwap_getEstimate_def useSwap_then_def useStableSwap_then_def
  useSwap_catch_def useStableSwap_catch_def setAverageFee_def catch_p_def finally_p_def
  setLoadingTrigger_def elseBranch_def nonZeroAmount_def Let_def

lemmas example_defs =
  useSwap_initial_def useStableSwap_initial_def wnear_def usdt_def pool79_def leg79_def
  userEdit_def timerRefresh_def quietReply_def ONLY_ZEROS_def

lemmas amount_defs =
  percentLess_def amountValue_def unsignedValue_def decimalValue_def exponentValue_def
  scale10_def digitValue_def Let_def

text \<open>
  \<open>ONLY_ZEROS\<close> accepts exactly the language of the regular expression: a run of zeros,
  then nothing more or a dot, then a run of zeros.
\<close>

lemma dropWhile_zero_nil: "dropWhile (\<lambda>c. c = x) s = [] \<longleftrightarrow> s = replicate (length s) x"
  by (induction s) auto

lemma split_zeros: "s = replicate (length (takeWhile (\<lambda>c. c = x) s)) x @ dropWhile (\<lambda>c. c = x) s"
  by (induction s) auto

lemma dropWhile_replicate_app:
  "dropWhile (\<lambda>c. c = x) (replicate m x @ r) = dropWhile (\<lambda>c. c = x) r"
  by (induction m) auto

lemma ONLY_ZEROS_language:
  "ONLY_ZEROS s \<longleftrightarrow>
     (\<exists>m n. s = replicate m CHR ''0'' @ replicate n CHR ''0'' \<or>
            s = replicate m CHR ''0'' @ CHR ''.'' # replicate n CHR ''0'')"
proof
  assume z: "ONLY_ZEROS s"
  let ?m = "length (takeWhile (\<lambda>c. c = CHR ''0'') s)"
  let ?r = "dropWhile (\<lambda>c. c = CHR ''0'') s"
  have s: "s = replicate ?m CHR ''0'' @ ?r" by (rule split_zeros)
  show "\<exists>m n. s = replicate m CHR ''0'' @ replicate n CHR ''0'' \<or>
            s = replicate m CHR ''0'' @ CHR ''.'' # replicate n CHR ''0''"
  proof (cases ?r)
    case Nil
    with s have "s = replicate ?m CHR ''0'' @ replicate 0 CHR ''0''" by simp
    then show ?thesis by blast
  next
    case (Cons c t)
    have c0: "c \<noteq> CHR ''0''"
      using Cons hd_dropWhile[of "\<lambda>c. c = CHR ''0''" s] by auto
    from z Cons c0 have "c = CHR ''.'' \<and> dropWhile (\<lambda>c. c = CHR ''0'') t = []"
      by (auto simp add: ONLY_ZEROS_def Let_def split: if_splits)
    then have "c = CHR ''.''" and "t = replicate (length t) CHR ''0''"
      by (simp_all add: dropWhile_zero_nil[symmetric])
    with s Cons have "s = replicate ?m CHR ''0'' @ CHR ''.'' # replicate (length t) CHR ''0''"
      by simp
    then show ?thesis by blast
  qed
next
  assume "\<exists>m n. s = replicate m CHR ''0'' @ replicate n CHR ''0'' \<or>
            s = replicate m CHR ''0'' @ CHR ''.'' # replicate n CHR ''0''"
  then obtain m n where "s = replicate m CHR ''0'' @ replicate n CHR ''0'' \<or>
            s = replicate m CHR ''0'' @ CHR ''.'' # replicate n CHR ''0''" by blast
  then show "ONLY_ZEROS s"
  proof
    assume "s = replicate m CHR ''0'' @ replicate n CHR ''0''"
    then have d: "dropWhile (\<lambda>c. c = CHR ''0'') s = []"
      by (simp add: dropWhile_zero_nil replicate_add[symmetric])
    show ?thesis unfolding ONLY_ZEROS_def Let_def
      by (simp only: d list.case dropWhile.simps)
  next
    assume "s = replicate m CHR ''0'' @ CHR ''.'' # replicate n CHR ''0''"
    then have d1: "dropWhile (\<lambda>c. c = CHR ''0'') s = CHR ''.'' # replicate n CHR ''0''"
      by (simp add: dropWhile_replicate_app)
    have d2: "dropWhile (\<lambda>c. c = CHR ''0'') (replicate n CHR ''0'') = []"
      by (simp add: dropWhile_zero_nil)
    show ?thesis unfolding ONLY_ZEROS_def Let_def
      by (simp only: d1 d2 list.case simp_thms if_True)
  qed
qed

text \<open>
  The \<open>else if\<close> of \<open>getEstimate\<close> is only reached when the \<open>if\<close> before it failed,
  that is when a token is missing or the ids are equal; its own condition asks for two
  tokens with different ids, so it never writes.
\<close>

lemma elseBranch_dead:
  assumes "case tokenIn P of None \<Rightarrow> True
           | Some a \<Rightarrow> (case tokenOut P of None \<Rightarrow> True | Some b \<Rightarrow> token_id a = token_id b)"
  shows "elseBranch P w = w"
  using assms by (simp add: elseBranch_def split: option.splits)

text \<open>\<open>reduce\<close> with \<open>+\<close> from 0 is the sum of the list.\<close>

lemma foldl_fee_sum:
  "foldl (\<lambda>pre cur. pre + f cur) a xs = a + sum_list (map f xs)"
  by (induction xs arbitrary: a) (simp_all add: add.assoc)

text \<open>
  What the setter calls of the stable estimator leave behind: of the cells only
  \<open>canSwap\<close> can differ, the call count is kept, and the flag holds the last value
  passed to \<open>setLoadingTrigger\<close>.
\<close>

lemma state_estimatorWrites:
  "(state (estimatorWrites r w))\<lparr>canSwap := c\<rparr> = (state w)\<lparr>canSwap := c\<rparr>"
proof -
  have a: "\<And>w. (state (foldl (\<lambda>w b. w\<lparr>state := (state w)\<lparr>canSwap := Some b\<rparr>\<rparr>) w bs))\<lparr>canSwap := c\<rparr>
        = (state w)\<lparr>canSwap := c\<rparr>" for bs
    by (induction bs) simp_all
  have b: "\<And>w. state (foldl (\<lambda>w b. setLoadingTrigger b w) w ts) = state w" for ts
    by (induction ts) (simp_all add: setLoadingTrigger_def)
  show ?thesis by (simp add: estimatorWrites_def a b)
qed

lemma calls_estimatorWrites: "calls (estimatorWrites r w) = calls w"
proof -
  have a: "\<And>w. calls (foldl (\<lambda>w b. w\<lparr>state := (state w)\<lparr>canSwap := Some b\<rparr>\<rparr>) w bs) = calls w" for bs
    by (induction bs) simp_all
  have b: "\<And>w. calls (foldl (\<lambda>w b. setLoadingTrigger b w) w ts) = calls w" for ts
    by (induction ts) (simp_all add: setLoadingTrigger_def)
  show ?thesis by (simp add: estimatorWrites_def a b)
qed


section \<open>The slippage floor\<close>

text \<open>
  Claim C1. With a non-empty \<open>tokenOutAmount\<close> the exposed \<open>minAmountOut\<close> is
  \<open>percentLess(slippageTolerance, tokenOutAmount)\<close>, whatever the tolerance and whatever
  \<open>percentLess\<close> computes. With \<open>percentLess\<close> as modelled above, for an
  output amount \<open>x\<close> that is not negative it is \<open>x\<close> less the tolerance's percentage of
  \<open>x\<close>: at most \<open>x\<close> for every slippage tolerance (a fractional reduction, so not
  negative), and for a fixed output it does not grow when the tolerance grows.
\<close>

theorem slippage_floor:
  fixes s :: "'a session_scheme"
  assumes "tokenOutAmount s \<noteq> []"
  shows "minAmountOut pl p (tokenOutAmount s) = Some (pl p (tokenOutAmount s))
       \<and> (amountValue (tokenOutAmount s) = Some x \<and> 0 \<le> x \<longrightarrow>
            minAmountOut percentLess p (tokenOutAmount s) = Some (Some (x - (p / 100) * x)) \<and>
            (0 \<le> p \<longrightarrow> x - (p / 100) * x \<le> x) \<and>
            (p \<le> q \<longrightarrow>
               (\<exists>y z. minAmountOut percentLess p (tokenOutAmount s) = Some (Some y) \<and>
                      minAmountOut percentLess q (tokenOutAmount s) = Some (Some z) \<and> z \<le> y)))"
proof (intro conjI impI)
  show "minAmountOut pl p (tokenOutAmount s) = Some (pl p (tokenOutAmount s))"
    using assms by (simp add: minAmountOut_def)
  assume vx: "amountValue (tokenOutAmount s) = Some x \<and> 0 \<le> x"
  then have v: "amountValue (tokenOutAmount s) = Some x" and x: "0 \<le> x" by simp_all
  show "minAmountOut percentLess p (tokenOutAmount s) = Some (Some (x - (p / 100) * x))"
    using assms v by (simp add: minAmountOut_def percentLess_def)
  { assume "0 \<le> p"
    then have "0 \<le> (p / 100) * x" using x by simp
    then show "x - (p / 100) * x \<le> x" by simp }
  { assume "p \<le> q"
    then have "(p / 100) * x \<le> (q / 100) * x"
      using x by (simp add: mult_right_mono divide_right_mono)
    then have "x - (q / 100) * x \<le> x - (p / 100) * x" by simp
    then show "\<exists>y z. minAmountOut percentLess p (tokenOutAmount s) = Some (Some y) \<and>
                      minAmountOut percentLess q (tokenOutAmount s) = Some (Some z) \<and> z \<le> y"
      using assms v by (simp add: minAmountOut_def percentLess_def) }
qed

theorem slippage_floor_witness:
  "minAmountOut percentLess (1 / 2)
      (tokenOutAmount ((useSwap_initial :: (unit, unit) swap_session)\<lparr>tokenOutAmount := ''9.066''\<rparr>))
     = Some (Some (902067 / 100000))
   \<and> (902067 / 100000 :: number) \<le> 4533 / 500
   \<and> amountValue ''9.066'' = Some (4533 / 500)
   \<and> amountValue ''1e-7'' = Some (1 / 10000000)
   \<and> minAmountOut percentLess (1 / 2)
      (tokenOutAmount (useStableSwap_initial\<lparr>tokenOutAmount := ''1e-7''\<rparr>))
     = Some (Some (199 / 2000000000))"
  using slippage_floor [where s = "(useSwap_initial :: (unit, unit) swap_session)\<lparr>tokenOutAmount := ''9.066''\<rparr>"
      and p = "1 / 2" and q = 1 and x = "4533 / 500" and pl = percentLess]
    slippage_floor [where s = "useStableSwap_initial\<lparr>tokenOutAmount := ''1e-7''\<rparr>"
      and p = "1 / 2" and q = 1 and x = "1 / 10000000" and pl = percentLess]
  by (simp add: minAmountOut_def amount_defs useSwap_initial_def useStableSwap_initial_def)

section \<open>Zero and blank amounts\<close>

text \<open>
  Claim C2 asks that both hooks answer a zero or blank amount between two distinct tokens
  with the output \<open>'0'\<close> and without a call of the estimator. \<open>useSwap\<close> does (lines
  139-142). \<open>useStableSwap\<close> does not: the test of the amount sits in an \<open>else if\<close>
  (lines 289-297) that repeats the condition of the \<open>if\<close> before it and so is never
  reached with distinct tokens; the cycle calls the estimator once, and the output afterwards
  is what it was before or, after a failure, the empty string.
\<close>

theorem zero_amount_cycles:
  assumes "tokenIn P = Some a" and "tokenOut P = Some b" and "token_id a \<noteq> token_id b"
    and "ONLY_ZEROS (tokenInAmount P)"
  shows "useSwap_getEstimate gaf eo est P s
           = (None, \<lparr>state = s\<lparr>canSwap := Some False, swapError := None, tokenOutAmount := ''0''\<rparr>,
                     trigger = loadingTrigger P, calls = 0\<rparr>)
       \<and> calls (snd (useStableSwap_getEstimate sest P t)) = 1
       \<and> (tokenOutAmount (state (snd (useStableSwap_getEstimate sest P t))) = tokenOutAmount t \<or>
          tokenOutAmount (state (snd (useStableSwap_getEstimate sest P t))) = [])"
proof (intro conjI)
  show "useSwap_getEstimate gaf eo est P s
           = (None, \<lparr>state = s\<lparr>canSwap := Some False, swapError := None, tokenOutAmount := ''0''\<rparr>,
                     trigger = loadingTrigger P, calls = 0\<rparr>)"
    using assms by (simp add: useSwap_getEstimate_def Let_def)
  let ?reply = "sest a b (tokenInAmount P) (loadingTrigger P) (stablePool P)"
  let ?w2 = "\<lparr>state = t\<lparr>canSwap := Some False, swapError := None\<rparr>,
                trigger = loadingTrigger P, calls = Suc 0\<rparr>"
  let ?w3 = "estimatorWrites ?reply ?w2"
  let ?sout = "useStableSwap_getEstimate sest P t"
  have t3: "tokenOutAmount (state ?w3) = tokenOutAmount t"
  proof -
    have "tokenOutAmount (state ?w3) = tokenOutAmount ((state ?w3)\<lparr>canSwap := None\<rparr>)" by simp
    also have "\<dots> = tokenOutAmount ((state ?w2)\<lparr>canSwap := None\<rparr>)"
      by (simp only: state_estimatorWrites)
    finally show ?thesis by simp
  qed
  have "calls (snd ?sout) = calls ?w3 \<and>
        (tokenOutAmount (state (snd ?sout)) = tokenOutAmount (state ?w3) \<or>
         tokenOutAmount (state (snd ?sout)) = [])"
    using assms by (simp add: cycle_defs split: sum.splits option.splits)
  then show "calls (snd ?sout) = 1"
    and "tokenOutAmount (state (snd ?sout)) = tokenOutAmount t \<or> tokenOutAmount (state (snd ?sout)) = []"
    using t3 by (simp_all add: calls_estimatorWrites)
qed

theorem zero_amount_cycles_witness:
  "calls (snd (useSwap_getEstimate (\<lambda>_ _ _. 25) (\<lambda>_ _. ''9'') (\<lambda>_ _ _ _. Inr (Some [leg79 PARALLEL]))
       (userEdit ''0'') useSwap_initial)) = 0
   \<and> tokenOutAmount (state (snd (useSwap_getEstimate (\<lambda>_ _ _. 25) (\<lambda>_ _. ''9'')
       (\<lambda>_ _ _ _. Inr (Some [leg79 PARALLEL])) (userEdit ''0'') useSwap_initial))) = ''0''
   \<and> calls (snd (useStableSwap_getEstimate
       (\<lambda>_ _ _ _ _. quietReply (Inr (Some \<lparr>estimate = Some ''0'', estimatePool = Some pool79, dy = ''0''\<rparr>)))
       (userEdit ''0'') (useStableSwap_initial\<lparr>tokenOutAmount := ''5''\<rparr>))) = 1
   \<and> tokenOutAmount (state (snd (useStableSwap_getEstimate
       (\<lambda>_ _ _ _ _. quietReply (Inr (Some \<lparr>estimate = Some ''0'', estimatePool = Some pool79, dy = ''0''\<rparr>)))
       (userEdit ''0'') (useStableSwap_initial\<lparr>tokenOutAmount := ''5''\<rparr>)))) = ''5''"
  using zero_amount_cycles [where P = "userEdit ''0''" and a = wnear and b = usdt
      and gaf = "\<lambda>_ _ _. 25" and eo = "\<lambda>_ _. ''9''" and est = "\<lambda>_ _ _ _. Inr (Some [leg79 PARALLEL])"
      and s = useSwap_initial
      and sest = "\<lambda>_ _ _ _ _. quietReply (Inr (Some \<lparr>estimate = Some ''0'', estimatePool = Some pool79, dy = ''0''\<rparr>))"
      and t = "useStableSwap_initial\<lparr>tokenOutAmount := ''5''\<rparr>"]
  by (simp add: cycle_defs example_defs estimatorWrites_def)

section \<open>Background and user-triggered refreshes\<close>

text \<open>
  Claim C3, as stated, at a session that holds an error from an earlier cycle: a
  timer-triggered refresh that succeeds turns \<open>canSwap\<close> from false to true and resets
  \<open>swapError\<close>, cells that are neither the pool nor the fee.
\<close>

theorem background_refresh_counterexample:
  "canSwap ((useSwap_initial :: (unit, unit) swap_session)\<lparr>canSwap := Some False, swapError := Some (Rejection ''no route'')\<rparr>) = Some False
   \<and> canSwap (state (snd (useSwap_getEstimate (\<lambda>_ _ _. 25) (\<lambda>_ _. ''9'')
        (\<lambda>_ _ _ _. Inr (Some [leg79 PARALLEL])) (timerRefresh ''10'')
        (useSwap_initial\<lparr>canSwap := Some False, swapError := Some (Rejection ''no route'')\<rparr>)))) = Some True
   \<and> swapError (state (snd (useSwap_getEstimate (\<lambda>_ _ _. 25) (\<lambda>_ _. ''9'')
        (\<lambda>_ _ _ _. Inr (Some [leg79 PARALLEL])) (timerRefresh ''10'')
        (useSwap_initial\<lparr>canSwap := Some False, swapError := Some (Rejection ''no route'')\<rparr>)))) = None"
  by (simp add: cycle_defs example_defs)

text \<open>
  Claim C3, amended. A cycle with distinct tokens and a non-zero amount whose estimator
  succeeds, started with \<open>loadingTrigger\<close> true, leaves \<open>tokenOutAmount\<close> and
  \<open>swapsToDo\<close> (in \<open>useStableSwap\<close>: \<open>tokenOutAmount\<close> and \<open>noFeeAmount\<close>) as they
  were; it sets \<open>canSwap\<close> to true, resets \<open>swapError\<close> and updates the pool and, in
  \<open>useSwap\<close>, the average fee, and nothing else. Started with \<open>loadingTrigger\<close>
  false, it makes the same writes and also takes the visible output and the route legs (in
  \<open>useStableSwap\<close>: the output and the no-fee amount) from the new estimate.
  \<open>loadingTrigger\<close> is the value the callback captured when the cycle started.
\<close>

theorem refresh_frame:
  assumes "tokenIn P = Some a" and "tokenOut P = Some b" and "token_id a \<noteq> token_id b"
    and "nonZeroAmount (tokenInAmount P)"
  shows "(est a b (tokenInAmount P) (loadingTrigger P \<and> \<not> loadingPause P) = Inr (Some (e # es)) \<longrightarrow>
           fst (useSwap_getEstimate gaf eo est P s) = None \<and>
           (loadingTrigger P \<longrightarrow>
              tokenOutAmount (state (snd (useSwap_getEstimate gaf eo est P s))) = tokenOutAmount s \<and>
              swapsToDo (state (snd (useSwap_getEstimate gaf eo est P s))) = swapsToDo s \<and>
              state (snd (useSwap_getEstimate gaf eo est P s))
                = s\<lparr>canSwap := Some True, swapError := None,
                     avgFee := (if status e = SMART \<or> status e = STABLE
                                then (\<Sum>l\<leftarrow>e # es. fee (pool l))
                                else gaf (allRoutes e) (allNodeRoutes e) (totalInputAmount e)),
                     sessionPool := Some (pool e)\<rparr>) \<and>
           (\<not> loadingTrigger P \<longrightarrow>
              state (snd (useSwap_getEstimate gaf eo est P s))
                = s\<lparr>canSwap := Some True, swapError := None,
                     avgFee := (if status e = SMART \<or> status e = STABLE
                                then (\<Sum>l\<leftarrow>e # es. fee (pool l))
                                else gaf (allRoutes e) (allNodeRoutes e) (totalInputAmount e)),
                     sessionPool := Some (pool e),
                     tokenOutAmount := eo (e # es) (token_id b),
                     swapsToDo := Some (e # es)\<rparr>))
       \<and> (settlement (sest a b (tokenInAmount P) (loadingTrigger P) (stablePool P)) = Inr (Some v) \<and>
          estimate v = Some x \<and> x \<noteq> [] \<and> estimatePool v = Some p \<longrightarrow>
           fst (useStableSwap_getEstimate sest P t) = None \<and>
           (loadingTrigger P \<longrightarrow>
              state (snd (useStableSwap_getEstimate sest P t))
                = t\<lparr>canSwap := Some True, swapError := None, sessionPool := Some p\<rparr>) \<and>
           (\<not> loadingTrigger P \<longrightarrow>
              state (snd (useStableSwap_getEstimate sest P t))
                = t\<lparr>canSwap := Some True, swapError := None, sessionPool := Some p,
                     tokenOutAmount := x, noFeeAmount := dy v\<rparr>))"
proof (intro conjI impI)
  assume h: "est a b (tokenInAmount P) (loadingTrigger P \<and> \<not> loadingPause P) = Inr (Some (e # es))"
  let ?out = "useSwap_getEstimate gaf eo est P s"
  let ?f = "if status e = SMART \<or> status e = STABLE
            then (\<Sum>l\<leftarrow>e # es. fee (pool l))
            else gaf (allRoutes e) (allNodeRoutes e) (totalInputAmount e)"
  let ?s = "s\<lparr>canSwap := Some True, swapError := None, avgFee := ?f, sessionPool := Some (pool e)\<rparr>"
  from h assms have out:
    "?out = (None, \<lparr>state = (if loadingTrigger P then ?s
                               else ?s\<lparr>tokenOutAmount := eo (e # es) (token_id b),
                                       swapsToDo := Some (e # es)\<rparr>),
                    trigger = False, calls = 1\<rparr>)"
    by (simp add: cycle_defs foldl_fee_sum)
  show "fst ?out = None" using out by simp
  { assume "loadingTrigger P"
    with out have st: "state (snd ?out) = ?s" by simp
    show "tokenOutAmount (state (snd ?out)) = tokenOutAmount s" using st by simp
    show "swapsToDo (state (snd ?out)) = swapsToDo s" using st by simp
    show "state (snd ?out) = ?s" by (rule st) }
  { assume "\<not> loadingTrigger P"
    with out show "state (snd ?out) = ?s\<lparr>tokenOutAmount := eo (e # es) (token_id b),
                                       swapsToDo := Some (e # es)\<rparr>" by simp }
next
  assume h: "settlement (sest a b (tokenInAmount P) (loadingTrigger P) (stablePool P)) = Inr (Some v) \<and>
          estimate v = Some x \<and> x \<noteq> [] \<and> estimatePool v = Some p"
  let ?out = "useStableSwap_getEstimate sest P t"
  let ?w = "estimatorWrites (sest a b (tokenInAmount P) (loadingTrigger P) (stablePool P))
              \<lparr>state = t\<lparr>canSwap := Some False, swapError := None\<rparr>, trigger = loadingTrigger P, calls = 1\<rparr>"
  let ?s = "(state ?w)\<lparr>canSwap := Some True\<rparr>"
  have sw: "?s = t\<lparr>canSwap := Some True, swapError := None\<rparr>"
    by (simp add: state_estimatorWrites)
  from h assms have out:
    "?out = (None, ?w\<lparr>state := (if loadingTrigger P then ?s\<lparr>sessionPool := Some p\<rparr>
                                   else ?s\<lparr>noFeeAmount := dy v, tokenOutAmount := x,
                                           sessionPool := Some p\<rparr>)\<rparr>)"
    by (simp add: cycle_defs)
  show "fst ?out = None" using out by simp
  { assume "loadingTrigger P"
    with out sw show "state (snd ?out) = t\<lparr>canSwap := Some True, swapError := None, sessionPool := Some p\<rparr>"
      by simp }
  { assume "\<not> loadingTrigger P"
    with out sw show "state (snd ?out)
                = t\<lparr>canSwap := Some True, swapError := None, sessionPool := Some p,
                     tokenOutAmount := x, noFeeAmount := dy v\<rparr>"
      by simp }
qed

theorem refresh_frame_witness:
  "tokenOutAmount (state (snd (useSwap_getEstimate (\<lambda>_ _ _. 25) (\<lambda>_ _. ''9'')
       (\<lambda>_ _ _ _. Inr (Some [leg79 PARALLEL])) (timerRefresh ''10'')
       (useSwap_initial\<lparr>tokenOutAmount := ''8''\<rparr>)))) = ''8''
   \<and> swapsToDo (state (snd (useSwap_getEstimate (\<lambda>_ _ _. 25) (\<lambda>_ _. ''9'')
       (\<lambda>_ _ _ _. Inr (Some [leg79 PARALLEL])) (timerRefresh ''10'')
       (useSwap_initial\<lparr>tokenOutAmount := ''8''\<rparr>)))) = None
   \<and> tokenOutAmount (state (snd (useSwap_getEstimate (\<lambda>_ _ _. 25) (\<lambda>_ _. ''9'')
       (\<lambda>_ _ _ _. Inr (Some [leg79 PARALLEL])) (userEdit ''10'')
       (useSwap_initial\<lparr>tokenOutAmount := ''8''\<rparr>)))) = ''9''
   \<and> swapsToDo (state (snd (useSwap_getEstimate (\<lambda>_ _ _. 25) (\<lambda>_ _. ''9'')
       (\<lambda>_ _ _ _. Inr (Some [leg79 PARALLEL])) (userEdit ''10'')
       (useSwap_initial\<lparr>tokenOutAmount := ''8''\<rparr>)))) = Some [leg79 PARALLEL]
   \<and> state (snd (useStableSwap_getEstimate
       (\<lambda>_ _ _ _ _. quietReply (Inr (Some \<lparr>estimate = Some ''9'', estimatePool = Some pool79, dy = ''9.1''\<rparr>)))
       (timerRefresh ''10'') (useStableSwap_initial\<lparr>tokenOutAmount := ''8''\<rparr>)))
     = \<lparr>sessionPool = Some pool79, canSwap = Some True, tokenOutAmount = ''8'', swapError = None,
        noFeeAmount = []\<rparr>
   \<and> state (snd (useSwap_getEstimate (\<lambda>_ _ _. 25) (\<lambda>_ _. ''9'')
       (\<lambda>_ _ _ _. Inr (Some [leg79 PARALLEL])) (userEdit ''10'')
       (useSwap_initial\<lparr>tokenOutAmount := ''8''\<rparr>)))
     = \<lparr>sessionPool = Some pool79, canSwap = Some True, tokenOutAmount = ''9'', swapError = None,
        swapsToDo = Some [leg79 PARALLEL], avgFee = 25\<rparr>
   \<and> state (snd (useStableSwap_getEstimate
       (\<lambda>_ _ _ _ _. quietReply (Inr (Some \<lparr>estimate = Some ''9'', estimatePool = Some pool79, dy = ''9.1''\<rparr>)))
       (userEdit ''10'') (useStableSwap_initial\<lparr>tokenOutAmount := ''8''\<rparr>)))
     = \<lparr>sessionPool = Some pool79, canSwap = Some True, tokenOutAmount = ''9'', swapError = None,
        noFeeAmount = ''9.1''\<rparr>"
  using refresh_frame [where P = "timerRefresh ''10''" and a = wnear and b = usdt
      and gaf = "\<lambda>_ _ _. 25" and eo = "\<lambda>_ _. ''9''" and est = "\<lambda>_ _ _ _. Inr (Some [leg79 PARALLEL])"
      and e = "leg79 PARALLEL" and es = "[]" and s = "useSwap_initial\<lparr>tokenOutAmount := ''8''\<rparr>"
      and sest = "\<lambda>_ _ _ _ _. quietReply (Inr (Some \<lparr>estimate = Some ''9'', estimatePool = Some pool79, dy = ''9.1''\<rparr>))"
      and v = "\<lparr>estimate = Some ''9'', estimatePool = Some pool79, dy = ''9.1''\<rparr>" and x = "''9''"
      and p = pool79 and t = "useStableSwap_initial\<lparr>tokenOutAmount := ''8''\<rparr>"]
    refresh_frame [where P = "userEdit ''10''" and a = wnear and b = usdt
      and gaf = "\<lambda>_ _ _. 25" and eo = "\<lambda>_ _. ''9''" and est = "\<lambda>_ _ _ _. Inr (Some [leg79 PARALLEL])"
      and e = "leg79 PARALLEL" and es = "[]" and s = "useSwap_initial\<lparr>tokenOutAmount := ''8''\<rparr>"
      and sest = "\<lambda>_ _ _ _ _. quietReply (Inr (Some \<lparr>estimate = Some ''9'', estimatePool = Some pool79, dy = ''9.1''\<rparr>))"
      and v = "\<lparr>estimate = Some ''9'', estimatePool = Some pool79, dy = ''9.1''\<rparr>" and x = "''9''"
      and p = pool79 and t = "useStableSwap_initial\<lparr>tokenOutAmount := ''8''\<rparr>"]
  by (simp add: example_defs nonZeroAmount_def)

section \<open>Estimation failures\<close>

text \<open>
  Claim C4. An estimation cycle whose estimator fails ends with \<open>canSwap = false\<close>, the
  visible output cleared to the empty string and the error in \<open>swapError\<close>, and nothing
  escapes the cycle. In \<open>useSwap\<close> the estimator fails when its promise rejects (with
  \<open>e\<close>), resolves to a falsy value (the callback throws the empty string) or resolves to an
  empty array (reading \<open>estimates[0].status\<close> throws a TypeError). In
  \<open>useStableSwap\<close> it fails when its promise rejects, resolves to \<open>undefined\<close>, or
  resolves without an estimate or without a pool.
\<close>

theorem estimation_failure_caught:
  assumes "tokenIn P = Some a" and "tokenOut P = Some b" and "token_id a \<noteq> token_id b"
  shows "(nonZeroAmount (tokenInAmount P) \<and>
          est a b (tokenInAmount P) (loadingTrigger P \<and> \<not> loadingPause P) = r \<and>
          (r = Inl e \<or> r = Inr None \<and> e = ThrownEmpty \<or> r = Inr (Some []) \<and> e = TypeError) \<longrightarrow>
            fst (useSwap_getEstimate gaf eo est P s) = None \<and>
            canSwap (state (snd (useSwap_getEstimate gaf eo est P s))) = Some False \<and>
            tokenOutAmount (state (snd (useSwap_getEstimate gaf eo est P s))) = [] \<and>
            swapError (state (snd (useSwap_getEstimate gaf eo est P s))) = Some e)
       \<and> (settlement (sest a b (tokenInAmount P) (loadingTrigger P) (stablePool P)) = r' \<and>
          (r' = Inl e' \<or> r' = Inr None \<and> e' = TypeError \<or>
           r' = Inr (Some v) \<and> (\<not> truthy (estimate v) \<or> estimatePool v = None) \<and> e' = ThrownEmpty) \<longrightarrow>
            fst (useStableSwap_getEstimate sest P t) = None \<and>
            canSwap (state (snd (useStableSwap_getEstimate sest P t))) = Some False \<and>
            tokenOutAmount (state (snd (useStableSwap_getEstimate sest P t))) = [] \<and>
            swapError (state (snd (useStableSwap_getEstimate sest P t))) = Some e')"
proof (intro conjI impI)
  assume h: "nonZeroAmount (tokenInAmount P) \<and>
          est a b (tokenInAmount P) (loadingTrigger P \<and> \<not> loadingPause P) = r \<and>
          (r = Inl e \<or> r = Inr None \<and> e = ThrownEmpty \<or> r = Inr (Some []) \<and> e = TypeError)"
  let ?out = "useSwap_getEstimate gaf eo est P s"
  from h assms have
    "?out = (None, \<lparr>state = s\<lparr>canSwap := Some False, tokenOutAmount := [], swapError := Some e\<rparr>,
                    trigger = False, calls = 1\<rparr>)"
    by (auto simp add: cycle_defs)
  then show "fst ?out = None" "canSwap (state (snd ?out)) = Some False"
    "tokenOutAmount (state (snd ?out)) = []" "swapError (state (snd ?out)) = Some e"
    by simp_all
next
  assume h: "settlement (sest a b (tokenInAmount P) (loadingTrigger P) (stablePool P)) = r' \<and>
          (r' = Inl e' \<or> r' = Inr None \<and> e' = TypeError \<or>
           r' = Inr (Some v) \<and> (\<not> truthy (estimate v) \<or> estimatePool v = None) \<and> e' = ThrownEmpty)"
  let ?out = "useStableSwap_getEstimate sest P t"
  let ?w = "estimatorWrites (sest a b (tokenInAmount P) (loadingTrigger P) (stablePool P))
              \<lparr>state = t\<lparr>canSwap := Some False, swapError := None\<rparr>, trigger = loadingTrigger P, calls = 1\<rparr>"
  from h assms have
    "?out = (None, ?w\<lparr>state := (state ?w)\<lparr>canSwap := Some False, tokenOutAmount := [],
                                           noFeeAmount := [], swapError := Some e'\<rparr>\<rparr>)"
    by (auto simp add: cycle_defs truthy_def split: option.splits)
  then show "fst ?out = None" "canSwap (state (snd ?out)) = Some False"
    "tokenOutAmount (state (snd ?out)) = []" "swapError (state (snd ?out)) = Some e'"
    by simp_all
qed

theorem estimation_failure_caught_witness:
  "fst (useSwap_getEstimate (\<lambda>_ _ _. 0) (\<lambda>_ _. ''9'') (\<lambda>_ _ _ _. Inr None) (userEdit ''10'')
          (useSwap_initial :: (unit, unit) swap_session)) = None
   \<and> swapError (state (snd (useSwap_getEstimate (\<lambda>_ _ _. 0) (\<lambda>_ _. ''9'') (\<lambda>_ _ _ _. Inr None)
          (userEdit ''10'') (useSwap_initial :: (unit, unit) swap_session)))) = Some ThrownEmpty
   \<and> canSwap (state (snd (useStableSwap_getEstimate (\<lambda>_ _ _ _ _. quietReply (Inl (Rejection ''no pool'')))
          (userEdit ''10'') useStableSwap_initial))) = Some False
   \<and> swapError (state (snd (useStableSwap_getEstimate (\<lambda>_ _ _ _ _. quietReply (Inl (Rejection ''no pool'')))
          (userEdit ''10'') useStableSwap_initial))) = Some (Rejection ''no pool'')"
  using estimation_failure_caught [where P = "userEdit ''10''" and a = wnear and b = usdt
      and est = "\<lambda>_ _ _ _. Inr None" and r = "Inr None" and e = ThrownEmpty
      and sest = "\<lambda>_ _ _ _ _. quietReply (Inl (Rejection ''no pool''))"
      and r' = "Inl (Rejection ''no pool'')" and e' = "Rejection ''no pool''"
      and gaf = "\<lambda>_ _ _. 0" and eo = "\<lambda>_ _. ''9''"
      and s = "useSwap_initial :: (unit, unit) swap_session" and t = useStableSwap_initial]
  by (simp add: example_defs nonZeroAmount_def)

section \<open>The transaction outcome\<close>

text \<open>
  The classification in terms of the action list: the first entry is a function call of
  one of the three methods, or the second entry is a function call of
  \<open>ft_transfer_call\<close>.
\<close>

lemma isSwap_actions:
  "isSwap tx =
     (\<exists>t. tx = Some t \<and>
        (actions t \<noteq> [] \<and>
           actions t ! 0 \<in> FunctionCall ` {''ft_transfer_call'', ''swap'', ''near_withdraw''} \<or>
         1 < length (actions t) \<and> actions t ! 1 = FunctionCall ''ft_transfer_call''))"
proof (cases tx)
  case None
  then show ?thesis by (simp add: isSwap_def method_name_def)
next
  case (Some t)
  have m: "method_name (Some t) i = Some m \<longleftrightarrow> i < length (actions t) \<and> actions t ! i = FunctionCall m"
    for i m
    by (simp add: method_name_def split: Action.splits)
  show ?thesis unfolding Some isSwap_def m by auto
qed

text \<open>
  Claim C5, as stated, at a transaction whose second action calls \<open>swap\<close>: a method name
  of the set appears among the first two entries, yet the transaction is not classified as a
  swap and no notification is emitted.
\<close>

theorem second_action_swap_counterexample:
  "method_name (Some \<lparr>actions = [OtherAction, FunctionCall ''swap'']\<rparr>) 1 = Some ''swap''
   \<and> isSwap (Some \<lparr>actions = [OtherAction, FunctionCall ''swap'']\<rparr>) = False
   \<and> toasts (snd (txHashEffect (\<lambda>_. Inr (Some \<lparr>actions = [OtherAction, FunctionCall ''swap'']\<rparr>))
        \<lparr>location = \<lparr>txHash = Some ''9xTq'', pathname = ''/swap'', errorType = None\<rparr>, toasts = []\<rparr>)) = []"
  by (simp add: method_name_def isSwap_def txHashEffect_def history_replace_def Let_def)

text \<open>
  Claim C5, amended. For a transaction hash in the navigation context whose lookup
  resolves, the transaction is classified as a swap exactly when its first action is a
  function call of \<open>ft_transfer_call\<close>, \<open>swap\<close> or \<open>near_withdraw\<close>, or its second
  action is a function call of \<open>ft_transfer_call\<close>; the notification is emitted exactly
  when it is classified as a swap and no error code is present; the navigation entry is
  replaced, the hash is gone, and running the effect again does nothing. When the lookup
  rejects, nothing is emitted and the navigation entry is left as it was.
\<close>

theorem txHash_resolution:
  assumes "txHash (location n) = Some h" and "h \<noteq> []"
  shows "(checkTransaction h = Inr tx \<longrightarrow>
           isSwap tx =
             (\<exists>t. tx = Some t \<and>
                (actions t \<noteq> [] \<and>
                   actions t ! 0 \<in> FunctionCall ` {''ft_transfer_call'', ''swap'', ''near_withdraw''} \<or>
                 1 < length (actions t) \<and> actions t ! 1 = FunctionCall ''ft_transfer_call'')) \<and>
           toasts (snd (txHashEffect checkTransaction n))
             = (if isSwap tx \<and> \<not> truthy (errorType (location n)) then toasts n @ [h] else toasts n) \<and>
           txHash (location (snd (txHashEffect checkTransaction n))) = None \<and>
           txHashEffect checkTransaction (snd (txHashEffect checkTransaction n))
             = (None, snd (txHashEffect checkTransaction n)))
       \<and> (checkTransaction h = Inl e \<longrightarrow> txHashEffect checkTransaction n = (Some e, n))"
proof (intro conjI impI)
  assume r: "checkTransaction h = Inr tx"
  let ?n1 = "if isSwap tx then (if \<not> truthy (errorType (location n)) then swapToast h n else n) else n"
  have out: "txHashEffect checkTransaction n = (None, history_replace (pathname (location n)) ?n1)"
    using assms r by (simp add: txHashEffect_def Let_def)
  show "isSwap tx =
             (\<exists>t. tx = Some t \<and>
                (actions t \<noteq> [] \<and>
                   actions t ! 0 \<in> FunctionCall ` {''ft_transfer_call'', ''swap'', ''near_withdraw''} \<or>
                 1 < length (actions t) \<and> actions t ! 1 = FunctionCall ''ft_transfer_call''))"
    by (rule isSwap_actions)
  show "toasts (snd (txHashEffect checkTransaction n))
             = (if isSwap tx \<and> \<not> truthy (errorType (location n)) then toasts n @ [h] else toasts n)"
    by (simp add: out history_replace_def swapToast_def)
  show "txHash (location (snd (txHashEffect checkTransaction n))) = None"
    by (simp add: out history_replace_def)
  then show "txHashEffect checkTransaction (snd (txHashEffect checkTransaction n))
             = (None, snd (txHashEffect checkTransaction n))"
    by (simp add: txHashEffect_def[of _ "snd (txHashEffect checkTransaction n)"] Let_def)
next
  assume "checkTransaction h = Inl e"
  then show "txHashEffect checkTransaction n = (Some e, n)"
    using assms by (simp add: txHashEffect_def Let_def)
qed

theorem txHash_resolution_witness:
  "toasts (snd (txHashEffect (\<lambda>_. Inr (Some \<lparr>actions = [FunctionCall ''swap'']\<rparr>))
        \<lparr>location = \<lparr>txHash = Some ''9xTq'', pathname = ''/swap'', errorType = None\<rparr>, toasts = []\<rparr>))
     = [''9xTq'']
   \<and> txHash (location (snd (txHashEffect (\<lambda>_. Inr (Some \<lparr>actions = [FunctionCall ''swap'']\<rparr>))
        \<lparr>location = \<lparr>txHash = Some ''9xTq'', pathname = ''/swap'', errorType = None\<rparr>, toasts = []\<rparr>)))
     = None
   \<and> txHashEffect (\<lambda>_. Inl (Rejection ''timeout''))
        \<lparr>location = \<lparr>txHash = Some ''9xTq'', pathname = ''/swap'', errorType = None\<rparr>, toasts = []\<rparr>
     = (Some (Rejection ''timeout''),
        \<lparr>location = \<lparr>txHash = Some ''9xTq'', pathname = ''/swap'', errorType = None\<rparr>, toasts = []\<rparr>)"
  using txHash_resolution [where n = "\<lparr>location = \<lparr>txHash = Some ''9xTq'', pathname = ''/swap'', errorType = None\<rparr>, toasts = []\<rparr>"
      and h = "''9xTq''" and checkTransaction = "\<lambda>_. Inr (Some \<lparr>actions = [FunctionCall ''swap'']\<rparr>)"
      and tx = "Some \<lparr>actions = [FunctionCall ''swap'']\<rparr>"]
    txHash_resolution [where n = "\<lparr>location = \<lparr>txHash = Some ''9xTq'', pathname = ''/swap'', errorType = None\<rparr>, toasts = []\<rparr>"
      and h = "''9xTq''" and checkTransaction = "\<lambda>_. Inl (Rejection ''timeout'')"
      and e = "Rejection ''timeout''"]
  by (simp add: truthy_def isSwap_def method_name_def)

section \<open>The loading trigger\<close>



section \<open>The average fee of a quote\<close>

text \<open>
  Claim C7. After a successful estimation in \<open>useSwap\<close> that produced a non-empty list of
  route legs, the average fee is the sum of the pool fees of all legs when the result (its
  first leg) is tagged \<open>STABLE\<close> or \<open>SMART\<close>, and \<open>getAverageFeeForRoutes\<close> of the
  first leg's routes, node routes and total input amount when it is tagged \<open>PARALLEL\<close>.
\<close>

theorem average_fee_recomputed:
  assumes "tokenIn P = Some a" and "tokenOut P = Some b" and "token_id a \<noteq> token_id b"
    and "nonZeroAmount (tokenInAmount P)"
    and "est a b (tokenInAmount P) (loadingTrigger P \<and> \<not> loadingPause P) = Inr (Some (e # es))"
  shows "(status e = STABLE \<or> status e = SMART \<longrightarrow>
           avgFee (state (snd (useSwap_getEstimate gaf eo est P s))) = (\<Sum>l\<leftarrow>e # es. fee (pool l)))
       \<and> (status e = PARALLEL \<longrightarrow>
           avgFee (state (snd (useSwap_getEstimate gaf eo est P s)))
             = gaf (allRoutes e) (allNodeRoutes e) (totalInputAmount e))"
  using assms by (simp add: cycle_defs foldl_fee_sum)

theorem average_fee_recomputed_witness:
  "avgFee (state (snd (useSwap_getEstimate (\<lambda>_ _ _. 25) (\<lambda>_ _. ''9'')
       (\<lambda>_ _ _ _. Inr (Some [leg79 SMART, leg79 SMART])) (userEdit ''10'') useSwap_initial))) = 60
   \<and> avgFee (state (snd (useSwap_getEstimate (\<lambda>_ _ _. 25) (\<lambda>_ _. ''9'')
       (\<lambda>_ _ _ _. Inr (Some [leg79 PARALLEL, leg79 PARALLEL])) (userEdit ''10'') useSwap_initial))) = 25"
  using average_fee_recomputed [where P = "userEdit ''10''" and a = wnear and b = usdt
      and est = "\<lambda>_ _ _ _. Inr (Some [leg79 SMART, leg79 SMART])" and e = "leg79 SMART"
      and es = "[leg79 SMART]" and gaf = "\<lambda>_ _ _. 25" and eo = "\<lambda>_ _. ''9''" and s = useSwap_initial]
    average_fee_recomputed [where P = "userEdit ''10''" and a = wnear and b = usdt
      and est = "\<lambda>_ _ _ _. Inr (Some [leg79 PARALLEL, leg79 PARALLEL])" and e = "leg79 PARALLEL"
      and es = "[leg79 PARALLEL]" and gaf = "\<lambda>_ _ _. 25" and eo = "\<lambda>_ _. ''9''" and s = useSwap_initial]
  by (simp add: example_defs nonZeroAmount_def)

section \<open>Equal tokens\<close>

text \<open>
  Claim C8. When \<open>tokenIn.id\<close> equals \<open>tokenOut.id\<close>, a cycle of either hook, whatever
  the amount, only sets \<open>canSwap\<close> to false: the estimator is not called, so no callback
  that could set \<open>canSwap\<close> to true runs, and every other cell is as before.
\<close>

theorem same_token_never_swappable:
  assumes "tokenIn P = Some a" and "tokenOut P = Some b" and "token_id a = token_id b"
  shows "useSwap_getEstimate gaf eo est P s
           = (None, \<lparr>state = s\<lparr>canSwap := Some False\<rparr>, trigger = loadingTrigger P, calls = 0\<rparr>)
       \<and> useStableSwap_getEstimate sest P t
           = (None, \<lparr>state = t\<lparr>canSwap := Some False\<rparr>, trigger = loadingTrigger P, calls = 0\<rparr>)"
  using assms by (simp add: useSwap_getEstimate_def useStableSwap_getEstimate_def elseBranch_def)

theorem same_token_never_swappable_witness:
  "canSwap (state (snd (useSwap_getEstimate (\<lambda>_ _ _. 0) (\<lambda>_ _. ''9'') (\<lambda>_ _ _ _. Inr (Some [leg79 PARALLEL]))
       ((userEdit ''10'')\<lparr>tokenOut := Some wnear\<rparr>) useSwap_initial))) = Some False
   \<and> calls (snd (useSwap_getEstimate (\<lambda>_ _ _. 0) (\<lambda>_ _. ''9'') (\<lambda>_ _ _ _. Inr (Some [leg79 PARALLEL]))
       ((userEdit ''10'')\<lparr>tokenOut := Some wnear\<rparr>) useSwap_initial)) = 0
   \<and> canSwap (state (snd (useStableSwap_getEstimate
       (\<lambda>_ _ _ _ _. \<lparr>canSwapWrites = [True], triggerWrites = [], settlement = Inr None\<rparr>)
       ((userEdit ''10'')\<lparr>tokenOut := Some wnear\<rparr>) useStableSwap_initial))) = Some False
   \<and> calls (snd (useStableSwap_getEstimate
       (\<lambda>_ _ _ _ _. \<lparr>canSwapWrites = [True], triggerWrites = [], settlement = Inr None\<rparr>)
       ((userEdit ''10'')\<lparr>tokenOut := Some wnear\<rparr>) useStableSwap_initial)) = 0"
  using same_token_never_swappable [where P = "(userEdit ''10'')\<lparr>tokenOut := Some wnear\<rparr>"
      and a = wnear and b = wnear and gaf = "\<lambda>_ _ _. 0" and eo = "\<lambda>_ _. ''9''"
      and est = "\<lambda>_ _ _ _. Inr (Some [leg79 PARALLEL])" and s = useSwap_initial
      and sest = "\<lambda>_ _ _ _ _. \<lparr>canSwapWrites = [True], triggerWrites = [], settlement = Inr None\<rparr>"
      and t = useStableSwap_initial]
  by (simp add: userEdit_def)

section \<open>When the minimum output is null\<close>

text \<open>
  Claim C9. In both hooks (the session is any extension of the shared cells) the exposed
  \<open>minAmountOut\<close> is \<open>null\<close> exactly when \<open>tokenOutAmount\<close> is the empty string; when
  \<open>tokenOutAmount\<close> is the string \<open>'0'\<close> it is \<open>percentLess(slippageTolerance, '0')\<close>, not
  \<open>null\<close>.
\<close>

theorem minAmountOut_null_iff:
  fixes s :: "'a session_scheme"
  shows "(minAmountOut pl p (tokenOutAmount s) = None) = (tokenOutAmount s = []) \<and>
         (tokenOutAmount s = ''0'' \<longrightarrow> minAmountOut pl p (tokenOutAmount s) = Some (pl p ''0''))"
  by (simp add: minAmountOut_def)

theorem minAmountOut_null_iff_witness:
  "minAmountOut percentLess (1 / 2) (tokenOutAmount useStableSwap_initial) = None
   \<and> minAmountOut percentLess (1 / 2)
        (tokenOutAmount ((useSwap_initial :: (unit, unit) swap_session)\<lparr>tokenOutAmount := ''0''\<rparr>))
       = Some (Some 0)"
  using minAmountOut_null_iff [where s = useStableSwap_initial and pl = percentLess and p = "1 / 2"]
    minAmountOut_null_iff [where s = "(useSwap_initial :: (unit, unit) swap_session)\<lparr>tokenOutAmount := ''0''\<rparr>"
      and pl = percentLess and p = "1 / 2"]
  by (simp add: example_defs amount_defs)

section \<open>The navigation rewrite\<close>

text \<open>
  Claim C10, as stated, at a lookup that rejects: the promise of \<open>checkTransaction\<close>
  has no \<open>.catch\<close>, the second callback never runs, and the navigation entry keeps its
  transaction hash.
\<close>

theorem rejected_lookup_counterexample:
  "location (snd (txHashEffect (\<lambda>_. Inl (Rejection ''timeout''))
        \<lparr>location = \<lparr>txHash = Some ''9xTq'', pathname = ''/swap'', errorType = None\<rparr>, toasts = []\<rparr>))
     = \<lparr>txHash = Some ''9xTq'', pathname = ''/swap'', errorType = None\<rparr>
   \<and> fst (txHashEffect (\<lambda>_. Inl (Rejection ''timeout''))
        \<lparr>location = \<lparr>txHash = Some ''9xTq'', pathname = ''/swap'', errorType = None\<rparr>, toasts = []\<rparr>)
     = Some (Rejection ''timeout'')"
  by (simp add: txHashEffect_def Let_def)

text \<open>
  Claim C10, amended. For a transaction hash whose lookup resolves, the navigation entry
  is replaced by the bare originating path whether or not the transaction is classified as
  a swap and whether or not an error code is present; the notification is emitted when the
  transaction is classified as a swap and no error code is present, and not otherwise.
  When the lookup rejects, the navigation entry is not rewritten and nothing is emitted.
\<close>

theorem navigation_rewritten:
  assumes "txHash (location n) = Some h" and "h \<noteq> []"
  shows "(checkTransaction h = Inr tx \<longrightarrow>
           location (snd (txHashEffect checkTransaction n))
             = \<lparr>txHash = None, pathname = pathname (location n), errorType = None\<rparr> \<and>
           (isSwap tx \<and> \<not> truthy (errorType (location n)) \<longrightarrow>
              toasts (snd (txHashEffect checkTransaction n)) = toasts n @ [h]) \<and>
           (\<not> isSwap tx \<or> truthy (errorType (location n)) \<longrightarrow>
              toasts (snd (txHashEffect checkTransaction n)) = toasts n))
       \<and> (checkTransaction h = Inl e \<longrightarrow> snd (txHashEffect checkTransaction n) = n)"
  using assms
  by (simp add: txHashEffect_def Let_def history_replace_def swapToast_def)

theorem navigation_rewritten_witness:
  "location (snd (txHashEffect (\<lambda>_. Inr (Some \<lparr>actions = [OtherAction]\<rparr>))
        \<lparr>location = \<lparr>txHash = Some ''9xTq'', pathname = ''/swap'', errorType = Some ''userRejected''\<rparr>,
         toasts = []\<rparr>))
     = \<lparr>txHash = None, pathname = ''/swap'', errorType = None\<rparr>
   \<and> toasts (snd (txHashEffect (\<lambda>_. Inr (Some \<lparr>actions = [OtherAction]\<rparr>))
        \<lparr>location = \<lparr>txHash = Some ''9xTq'', pathname = ''/swap'', errorType = Some ''userRejected''\<rparr>,
         toasts = []\<rparr>)) = []
   \<and> toasts (snd (txHashEffect (\<lambda>_. Inr (Some \<lparr>actions = [FunctionCall ''near_withdraw'']\<rparr>))
        \<lparr>location = \<lparr>txHash = Some ''9xTq'', pathname = ''/swap'', errorType = None\<rparr>,
         toasts = []\<rparr>)) = [''9xTq'']
   \<and> snd (txHashEffect (\<lambda>_. Inl (Rejection ''not found''))
        \<lparr>location = \<lparr>txHash = Some ''9xTq'', pathname = ''/swap'', errorType = None\<rparr>, toasts = []\<rparr>)
     = \<lparr>location = \<lparr>txHash = Some ''9xTq'', pathname = ''/swap'', errorType = None\<rparr>, toasts = []\<rparr>"
  using navigation_rewritten [where n = "\<lparr>location = \<lparr>txHash = Some ''9xTq'', pathname = ''/swap'', errorType = Some ''userRejected''\<rparr>, toasts = []\<rparr>"
      and h = "''9xTq''" and checkTransaction = "\<lambda>_. Inr (Some \<lparr>actions = [OtherAction]\<rparr>)"
      and tx = "Some \<lparr>actions = [OtherAction]\<rparr>"]
    navigation_rewritten [where n = "\<lparr>location = \<lparr>txHash = Some ''9xTq'', pathname = ''/swap'', errorType = None\<rparr>, toasts = []\<rparr>"
      and h = "''9xTq''" and checkTransaction = "\<lambda>_. Inr (Some \<lparr>actions = [FunctionCall ''near_withdraw'']\<rparr>)"
      and tx = "Some \<lparr>actions = [FunctionCall ''near_withdraw'']\<rparr>"]
    navigation_rewritten [where n = "\<lparr>location = \<lparr>txHash = Some ''9xTq'', pathname = ''/swap'', errorType = None\<rparr>, toasts = []\<rparr>"
      and h = "''9xTq''" and checkTransaction = "\<lambda>_. Inl (Rejection ''not found'')"
      and e = "Rejection ''not found''"]
  by (simp add: truthy_def isSwap_def method_name_def)

end
